theory Spec2Isabelle
  imports Complex_Main
begin

section \<open>S.U.S.M.I AI service: the handlers of \<^verbatim>\<open>apps/ai-service/main.py\<close>\<close>

text \<open>
  The service has three POST handlers (\<^verbatim>\<open>chat\<close>, \<^verbatim>\<open>analyze\<close>, \<^verbatim>\<open>suggest\<close>). Each reads the
  process environment, makes at most one call to a provider SDK and shapes the reply.

  Modelling decisions.
  \<^item> A Python \<^verbatim>\<open>str\<close> is a \<open>string\<close>; a character outside ASCII is written as the bytes
    of its UTF-8 encoding. No handler measures or indexes a string: they compare,
    concatenate and pass strings on, which the encoding preserves.
  \<^item> \<^verbatim>\<open>os.getenv\<close> reads a map from names to values; an unset variable is \<open>None\<close>.
  \<^item> The provider SDKs are not part of the repository. Each handler takes the provider
    as a function from the outbound call (all keyword arguments, and the key the client
    was built with) to either the \<^verbatim>\<open>str(e)\<close> of the exception \<^verbatim>\<open>e\<close> raised inside the
    \<^verbatim>\<open>try\<close> block while calling it and reading its reply (\<open>Inl\<close>), or the fields of
    the reply that the handler reads (\<open>Inr\<close>).
  \<^item> Every handler returns the list of outbound calls it made, in order, with its result,
    so that "which provider was called, how often, with what" is observable.
  \<^item> A raised \<^verbatim>\<open>HTTPException\<close> is the \<open>Inl\<close> of the result.
  \<^item> A \<^verbatim>\<open>float\<close> is only passed through or given as a literal, never computed with;
    it is a \<open>real\<close>.
\<close>

subsection \<open>Python values\<close>

type_synonym environ = "string \<rightharpoonup> string"

definition os_getenv :: "environ \<Rightarrow> string \<Rightarrow> string option" where
  "os_getenv env name = env name"

text \<open>Truth value of an \<^verbatim>\<open>Optional[str]\<close>: \<^verbatim>\<open>None\<close> and \<^verbatim>\<open>""\<close> are false.\<close>

fun truthy :: "string option \<Rightarrow> bool" where
  "truthy None = False"
| "truthy (Some s) = (s \<noteq> [])"

text \<open>\<^verbatim>\<open>x or d\<close> on an \<^verbatim>\<open>Optional[str]\<close> and on an \<^verbatim>\<open>Optional[int]\<close> (\<^verbatim>\<open>0\<close> is false).\<close>

fun or_str :: "string option \<Rightarrow> string \<Rightarrow> string" where
  "or_str None d = d"
| "or_str (Some s) d = (if s = [] then d else s)"

fun or_int :: "int option \<Rightarrow> int \<Rightarrow> int" where
  "or_int None d = d"
| "or_int (Some n) d = (if n = 0 then d else n)"

text \<open>A keyword argument that a call may leave out altogether.\<close>

datatype 'a kwarg = NotGiven | Given 'a

text \<open>
  A \<^verbatim>\<open>dict\<close> with string keys is an association list in insertion order.
  \<^verbatim>\<open>d[k]\<close> raises \<^verbatim>\<open>KeyError\<close> on a missing key, whose \<^verbatim>\<open>str\<close> is the key in quotes
  (for a key of plain letters); \<^verbatim>\<open>d.get(k, default)\<close> never raises.
\<close>

type_synonym 'v dict = "(string \<times> 'v) list"

definition key_error_str :: "string \<Rightarrow> string" where
  "key_error_str k = [CHR 0x27] @ k @ [CHR 0x27]"

definition dict_getitem :: "'v dict \<Rightarrow> string \<Rightarrow> string + 'v" where
  "dict_getitem d k = (case map_of d k of None \<Rightarrow> Inl (key_error_str k) | Some v \<Rightarrow> Inr v)"

definition dict_get :: "'v dict \<Rightarrow> string \<Rightarrow> 'v \<Rightarrow> 'v" where
  "dict_get d k dflt = (case map_of d k of None \<Rightarrow> dflt | Some v \<Rightarrow> v)"

text \<open>A parsed JSON value; the body of \<^verbatim>\<open>suggest\<close> is a JSON object.\<close>

datatype json =
    JNull
  | JBool bool
  | JInt int
  | JFloat real
  | JString string
  | JArray "json list"
  | JObject "(string \<times> json) list"

subsection \<open>Letters outside ASCII, as UTF-8\<close>

definition a_acute :: string where "a_acute = [CHR 0xC3, CHR 0xA1]"
definition a_grave :: string where "a_grave = [CHR 0xC3, CHR 0xA0]"
definition a_tilde :: string where "a_tilde = [CHR 0xC3, CHR 0xA3]"
definition c_cedilla :: string where "c_cedilla = [CHR 0xC3, CHR 0xA7]"
definition e_acute :: string where "e_acute = [CHR 0xC3, CHR 0xA9]"
definition e_circ :: string where "e_circ = [CHR 0xC3, CHR 0xAA]"
definition o_acute :: string where "o_acute = [CHR 0xC3, CHR 0xB3]"
definition o_tilde :: string where "o_tilde = [CHR 0xC3, CHR 0xB5]"
definition wrench :: string where "wrench = [CHR 0xF0, CHR 0x9F, CHR 0x94, CHR 0xA7]"

subsection \<open>Request and response models\<close>

text \<open>
  The pydantic models, with the field \<^verbatim>\<open>f\<close> of each model prefixed by the model
  (\<open>msg_\<close>, \<open>req_\<close>, \<open>resp_\<close>, \<open>areq_\<close>, \<open>aresp_\<close>), since several models share field
  names. \<^verbatim>\<open>role\<close> is declared \<^verbatim>\<open>str\<close>: any string is a valid role.
\<close>

record ChatMessage =
  msg_role :: string
  msg_content :: string

record ChatRequest =
  req_messages :: "ChatMessage list"
  req_model :: "string option"
  req_temperature :: "real option"
  req_max_tokens :: "int option"
  req_user_id :: "string option"

record ChatResponse =
  resp_content :: string
  resp_model :: string
  resp_usage :: "int dict option"

record AnalyzeRequest =
  areq_text :: string
  areq_task :: string

record AnalyzeResponse =
  aresp_result :: string
  aresp_task :: string

datatype HTTPException = HTTPException (status_code: int) (detail: string)

text \<open>The request pydantic builds from a body that gives only \<^verbatim>\<open>messages\<close>.\<close>

definition ChatRequest_defaults :: "ChatMessage list \<Rightarrow> ChatRequest" where
  "ChatRequest_defaults ms =
     \<lparr>req_messages = ms, req_model = Some ''gpt-4'', req_temperature = Some 0.7,
      req_max_tokens = Some 1000, req_user_id = None\<rparr>"

subsection \<open>Outbound calls and provider replies\<close>

text \<open>
  \<^verbatim>\<open>OpenAI(api_key=k).chat.completions.create(model=, messages=, temperature=, max_tokens=)\<close>
  and \<^verbatim>\<open>anthropic.Anthropic(api_key=k).messages.create(model=, max_tokens=, system=, messages=)\<close>.
\<close>

record openai_call =
  oc_api_key :: "string option"
  oc_model :: string
  oc_messages :: "string dict list"
  oc_temperature :: "real option"
  oc_max_tokens :: "int option kwarg"

record anthropic_call =
  ac_api_key :: "string option"
  ac_model :: string
  ac_max_tokens :: int
  ac_system :: string
  ac_messages :: "string dict list"

datatype outbound_call = OpenAI_create openai_call | Anthropic_create anthropic_call

text \<open>
  What the handlers read of a reply: \<^verbatim>\<open>choices[0].message.content\<close>, \<^verbatim>\<open>model\<close> and the
  three counters of \<^verbatim>\<open>usage\<close>; \<^verbatim>\<open>content[0].text\<close>, \<^verbatim>\<open>model\<close> and the two counters.
\<close>

record openai_reply =
  or_content :: string
  or_model :: string
  or_prompt_tokens :: int
  or_completion_tokens :: int
  or_total_tokens :: int

record anthropic_reply =
  ar_text :: string
  ar_model :: string
  ar_input_tokens :: int
  ar_output_tokens :: int

type_synonym openai_provider = "openai_call \<Rightarrow> string + openai_reply"
type_synonym anthropic_provider = "anthropic_call \<Rightarrow> string + anthropic_reply"

datatype provider = OpenAI | Anthropic

fun provider_of :: "outbound_call \<Rightarrow> provider" where
  "provider_of (OpenAI_create c) = OpenAI"
| "provider_of (Anthropic_create c) = Anthropic"

fun call_model :: "outbound_call \<Rightarrow> string" where
  "call_model (OpenAI_create c) = oc_model c"
| "call_model (Anthropic_create c) = ac_model c"

fun call_messages :: "outbound_call \<Rightarrow> string dict list" where
  "call_messages (OpenAI_create c) = oc_messages c"
| "call_messages (Anthropic_create c) = ac_messages c"

subsection \<open>The fixed texts\<close>

definition fallback_content :: string where
  "fallback_content =
     wrench @ '' O servi'' @ c_cedilla @ ''o de IA precisa ser configurado. ''
     @ ''Por favor, adicione sua chave de API (OpenAI ou Anthropic) no arquivo .env ''
     @ ''para habilitar respostas inteligentes.''"

definition system_prompt :: "string dict" where
  "system_prompt =
     [(''role'', ''system''),
      (''content'',
        ''Voc'' @ e_circ @ '' '' @ e_acute
        @ '' o S.U.S.M.I, um assistente inteligente pessoal inspirado no JARVIS.\<newline>''
        @ ''Voc'' @ e_circ @ '' '' @ e_acute @ '' educado, eficiente e prestativo. Voc''
        @ e_circ @ '' ajuda o usu'' @ a_acute @ ''rio com:\<newline>''
        @ ''- Gerenciamento de tarefas e agenda\<newline>''
        @ ''- Resposta a perguntas\<newline>''
        @ ''- Automa'' @ c_cedilla @ a_tilde @ ''o de atividades\<newline>''
        @ ''- An'' @ a_acute @ ''lise de informa'' @ c_cedilla @ o_tilde @ ''es\<newline>''
        @ ''\<newline>''
        @ ''Responda sempre em portugu'' @ e_circ
        @ ''s brasileiro, de forma clara e concisa.'')]"

definition anthropic_system :: string where
  "anthropic_system =
     ''Voc'' @ e_circ @ '' '' @ e_acute
     @ '' o S.U.S.M.I, um assistente inteligente pessoal inspirado no JARVIS.\<newline>''
     @ ''Voc'' @ e_circ @ '' '' @ e_acute
     @ '' educado, eficiente e prestativo. Responda sempre em portugu'' @ e_circ
     @ ''s brasileiro.''"

definition anthropic_model :: string where
  "anthropic_model = ''claude-3-sonnet-20240229''"

definition config_needed_result :: string where
  "config_needed_result =
     ''Configure a chave de API para usar an'' @ a_acute @ ''lise de texto.''"

definition analyze_system :: "string dict" where
  "analyze_system =
     [(''role'', ''system''),
      (''content'',
        ''Voc'' @ e_circ @ '' '' @ e_acute @ '' um assistente de an'' @ a_acute
        @ ''lise de texto.'')]"

definition prompts :: "string \<Rightarrow> string dict" where
  "prompts text_in =
     [(''summarize'', ''Resuma o seguinte texto de forma concisa:\<newline>\<newline>'' @ text_in),
      (''extract'',
         ''Extraia as informa'' @ c_cedilla @ o_tilde
         @ ''es principais do seguinte texto:\<newline>\<newline>'' @ text_in),
      (''classify'',
         ''Classifique o seguinte texto por categoria e sentimento:\<newline>\<newline>''
         @ text_in)]"

subsection \<open>The chat handler\<close>

text \<open>\<^verbatim>\<open>{"role": m.role, "content": m.content}\<close>\<close>

definition message_dict :: "ChatMessage \<Rightarrow> string dict" where
  "message_dict m = [(''role'', msg_role m), (''content'', msg_content m)]"

text \<open>
  The last branch is the end of the \<^verbatim>\<open>if\<close>/\<^verbatim>\<open>elif\<close> chain with no \<^verbatim>\<open>else\<close>: the
  function would return \<^verbatim>\<open>None\<close>.
\<close>

definition chat ::
  "environ \<Rightarrow> openai_provider \<Rightarrow> anthropic_provider \<Rightarrow> ChatRequest
     \<Rightarrow> outbound_call list \<times> (HTTPException + ChatResponse option)" where
  "chat env openai_create anthropic_create request =
     (let openai_key = os_getenv env ''OPENAI_API_KEY'';
          anthropic_key = os_getenv env ''ANTHROPIC_API_KEY''
      in
        if \<not> truthy openai_key \<and> \<not> truthy anthropic_key then
          ([], Inr (Some \<lparr>resp_content = fallback_content, resp_model = ''fallback'',
                           resp_usage = None\<rparr>))
        else if truthy openai_key then
          (let messages = map message_dict (req_messages request);
               messages = system_prompt # messages;
               call = \<lparr>oc_api_key = openai_key,
                       oc_model = or_str (req_model request) ''gpt-4'',
                       oc_messages = messages,
                       oc_temperature = req_temperature request,
                       oc_max_tokens = Given (req_max_tokens request)\<rparr>
           in case openai_create call of
                Inl e \<Rightarrow> ([OpenAI_create call], Inl (HTTPException 500 e))
              | Inr response \<Rightarrow>
                  ([OpenAI_create call],
                   Inr (Some \<lparr>resp_content = or_content response,
                              resp_model = or_model response,
                              resp_usage = Some
                                [(''prompt_tokens'', or_prompt_tokens response),
                                 (''completion_tokens'', or_completion_tokens response),
                                 (''total_tokens'', or_total_tokens response)]\<rparr>)))
        else if truthy anthropic_key then
          (let messages =
                 map message_dict
                   (filter (\<lambda>m. msg_role m \<noteq> ''system'') (req_messages request));
               call = \<lparr>ac_api_key = anthropic_key,
                       ac_model = anthropic_model,
                       ac_max_tokens = or_int (req_max_tokens request) 1000,
                       ac_system = anthropic_system,
                       ac_messages = messages\<rparr>
           in case anthropic_create call of
                Inl e \<Rightarrow> ([Anthropic_create call], Inl (HTTPException 500 e))
              | Inr response \<Rightarrow>
                  ([Anthropic_create call],
                   Inr (Some \<lparr>resp_content = ar_text response,
                              resp_model = ar_model response,
                              resp_usage = Some
                                [(''input_tokens'', ar_input_tokens response),
                                 (''output_tokens'', ar_output_tokens response)]\<rparr>)))
        else ([], Inr None))"

subsection \<open>The analyze handler\<close>

definition analyze ::
  "environ \<Rightarrow> openai_provider \<Rightarrow> AnalyzeRequest
     \<Rightarrow> outbound_call list \<times> (HTTPException + AnalyzeResponse)" where
  "analyze env openai_create request =
     (let openai_key = os_getenv env ''OPENAI_API_KEY''
      in
        if \<not> truthy openai_key then
          ([], Inr \<lparr>aresp_result = config_needed_result, aresp_task = areq_task request\<rparr>)
        else
          (let ps = prompts (areq_text request)
           in case dict_getitem ps ''summarize'' of
                Inl e \<Rightarrow> ([], Inl (HTTPException 500 e))
              | Inr dflt \<Rightarrow>
                  (let call = \<lparr>oc_api_key = openai_key,
                               oc_model = ''gpt-4'',
                               oc_messages =
                                 [analyze_system,
                                  [(''role'', ''user''),
                                   (''content'', dict_get ps (areq_task request) dflt)]],
                               oc_temperature = Some 0.3,
                               oc_max_tokens = NotGiven\<rparr>
                   in case openai_create call of
                        Inl e \<Rightarrow> ([OpenAI_create call], Inl (HTTPException 500 e))
                      | Inr response \<Rightarrow>
                          ([OpenAI_create call],
                           Inr \<lparr>aresp_result = or_content response,
                                aresp_task = areq_task request\<rparr>))))"

subsection \<open>The suggest handler\<close>

definition suggest :: "json dict \<Rightarrow> string list dict" where
  "suggest context_in =
     [(''suggestions'',
        [''Voc'' @ e_circ @ '' tem 3 tarefas pendentes para hoje'',
         ''Considere agendar uma pausa '' @ a_grave @ ''s 15h'',
         ''Seu relat'' @ o_acute @ ''rio mensal est'' @ a_acute @ '' pendente''])]"

subsection \<open>Providers used to run the handlers on concrete requests\<close>

definition openai_down :: openai_provider where
  "openai_down c = Inl ''Connection error.''"

definition anthropic_down :: anthropic_provider where
  "anthropic_down c = Inl ''Connection error.''"

definition openai_echo :: openai_provider where
  "openai_echo c =
     Inr \<lparr>or_content = ''ok'', or_model = oc_model c, or_prompt_tokens = 12,
          or_completion_tokens = 3, or_total_tokens = 15\<rparr>"

definition anthropic_echo :: anthropic_provider where
  "anthropic_echo c =
     Inr \<lparr>ar_text = ''ok'', ar_model = ac_model c, ar_input_tokens = 12,
          ar_output_tokens = 3\<rparr>"

section \<open>Properties of the handlers\<close>

text \<open>
  The \<^verbatim>\<open>if\<close>/\<^verbatim>\<open>elif\<close> chain of \<open>chat\<close> always takes a branch: the handler never
  returns \<^verbatim>\<open>None\<close>.
\<close>

lemma chat_never_returns_None:
  "snd (chat env openai_create anthropic_create request) \<noteq> Inr None"
  by (simp add: chat_def Let_def split: sum.splits)

subsection \<open>Chat: no credential configured\<close>

text \<open>
  C1. When neither \<^verbatim>\<open>OPENAI_API_KEY\<close> nor \<^verbatim>\<open>ANTHROPIC_API_KEY\<close> is configured (each is
  unset or empty), \<open>chat\<close> makes no outbound call and returns a \<open>ChatResponse\<close>, not an
  error: its content is the fixed fallback text, its model is \<open>''fallback''\<close> and its
  usage is \<open>None\<close>, whatever the messages, model, temperature and max_tokens of the
  request and whatever the providers would answer.
\<close>

theorem chat_fallback_without_credentials:
  assumes "\<not> truthy (os_getenv env ''OPENAI_API_KEY'')"
    and "\<not> truthy (os_getenv env ''ANTHROPIC_API_KEY'')"
  shows "chat env openai_create anthropic_create request =
    ([], Inr (Some \<lparr>resp_content = fallback_content, resp_model = ''fallback'',
                     resp_usage = None\<rparr>))"
  using assms by (simp add: chat_def)

theorem chat_fallback_without_credentials_witness:
  "\<not> truthy (os_getenv Map.empty ''OPENAI_API_KEY'')
   \<and> \<not> truthy (os_getenv Map.empty ''ANTHROPIC_API_KEY'')
   \<and> chat Map.empty openai_echo anthropic_echo
        \<lparr>req_messages = [\<lparr>msg_role = ''user'', msg_content = ''Hi''\<rparr>],
         req_model = Some ''gpt-3.5-turbo'', req_temperature = Some 1.5,
         req_max_tokens = Some 5, req_user_id = Some ''u1''\<rparr>
       = ([], Inr (Some \<lparr>resp_content = fallback_content, resp_model = ''fallback'',
                        resp_usage = None\<rparr>))"
  using chat_fallback_without_credentials [of Map.empty openai_echo anthropic_echo
      "\<lparr>req_messages = [\<lparr>msg_role = ''user'', msg_content = ''Hi''\<rparr>],
         req_model = Some ''gpt-3.5-turbo'', req_temperature = Some 1.5,
         req_max_tokens = Some 5, req_user_id = Some ''u1''\<rparr>"]
  by (simp add: os_getenv_def)

subsection \<open>Chat: which provider is called\<close>

text \<open>
  C2. The provider that \<open>chat\<close> calls depends on the presence of the two credentials
  only. With the OpenAI key present the one outbound call goes to OpenAI, also when the
  Anthropic key is present and whatever the messages say; the call goes to Anthropic
  exactly when the OpenAI key is absent and the Anthropic key present; and two runs that
  agree on the presence of both keys call the same provider, whatever else differs.
\<close>

theorem chat_provider_selection:
  "(truthy (os_getenv env ''OPENAI_API_KEY'')
      \<longrightarrow> map provider_of (fst (chat env openai_create anthropic_create request)) = [OpenAI])
   \<and> (map provider_of (fst (chat env openai_create anthropic_create request)) = [Anthropic]
      \<longleftrightarrow> \<not> truthy (os_getenv env ''OPENAI_API_KEY'')
          \<and> truthy (os_getenv env ''ANTHROPIC_API_KEY''))
   \<and> (truthy (os_getenv env ''OPENAI_API_KEY'') = truthy (os_getenv env' ''OPENAI_API_KEY'')
      \<and> truthy (os_getenv env ''ANTHROPIC_API_KEY'')
          = truthy (os_getenv env' ''ANTHROPIC_API_KEY'')
      \<longrightarrow> map provider_of (fst (chat env openai_create anthropic_create request))
          = map provider_of (fst (chat env' openai_create' anthropic_create' request')))"
  by (simp add: chat_def Let_def split: sum.splits)

theorem chat_provider_selection_witness:
  "truthy (os_getenv [''OPENAI_API_KEY'' \<mapsto> ''sk-a'', ''ANTHROPIC_API_KEY'' \<mapsto> ''sk-b'']
            ''OPENAI_API_KEY'')
   \<and> map provider_of
        (fst (chat [''OPENAI_API_KEY'' \<mapsto> ''sk-a'', ''ANTHROPIC_API_KEY'' \<mapsto> ''sk-b'']
                openai_echo anthropic_echo
                (ChatRequest_defaults
                   [\<lparr>msg_role = ''user'', msg_content = ''use anthropic please''\<rparr>])))
       = [OpenAI]
   \<and> \<not> truthy (os_getenv [''ANTHROPIC_API_KEY'' \<mapsto> ''sk-b''] ''OPENAI_API_KEY'')
   \<and> truthy (os_getenv [''ANTHROPIC_API_KEY'' \<mapsto> ''sk-b''] ''ANTHROPIC_API_KEY'')
   \<and> map provider_of
        (fst (chat [''ANTHROPIC_API_KEY'' \<mapsto> ''sk-b''] openai_echo anthropic_echo
                (ChatRequest_defaults [\<lparr>msg_role = ''user'', msg_content = ''Hi''\<rparr>])))
       = [Anthropic]
   \<and> map provider_of
        (fst (chat [''ANTHROPIC_API_KEY'' \<mapsto> ''sk-b''] openai_echo anthropic_echo
                (ChatRequest_defaults [\<lparr>msg_role = ''user'', msg_content = ''Hi''\<rparr>])))
       = map provider_of
           (fst (chat [''OPENAI_API_KEY'' \<mapsto> [], ''ANTHROPIC_API_KEY'' \<mapsto> ''other'']
                   openai_down anthropic_down (ChatRequest_defaults [])))"
  using
    chat_provider_selection
      [of "[''OPENAI_API_KEY'' \<mapsto> ''sk-a'', ''ANTHROPIC_API_KEY'' \<mapsto> ''sk-b'']"
          openai_echo anthropic_echo
          "ChatRequest_defaults [\<lparr>msg_role = ''user'', msg_content = ''use anthropic please''\<rparr>]"]
    chat_provider_selection
      [of "[''ANTHROPIC_API_KEY'' \<mapsto> ''sk-b'']" openai_echo anthropic_echo
          "ChatRequest_defaults [\<lparr>msg_role = ''user'', msg_content = ''Hi''\<rparr>]"
          "[''OPENAI_API_KEY'' \<mapsto> [], ''ANTHROPIC_API_KEY'' \<mapsto> ''other'']"
          openai_down anthropic_down "ChatRequest_defaults []"]
  by (auto simp add: os_getenv_def)

subsection \<open>Chat: the call to the secondary provider\<close>

text \<open>
  C3, as the code has it. On the secondary path (OpenAI key absent, Anthropic key present)
  \<open>chat\<close> makes one call, to Anthropic. Its messages are the caller's messages without
  those whose role is \<open>''system''\<close>, so none of the forwarded messages has that role; the
  system instruction is the separate \<open>ac_system\<close> argument; the model is the literal
  \<open>''claude-3-sonnet-20240229''\<close>, the same call being made whatever the request's model
  is; \<open>max_tokens\<close> is 1000 when the request leaves it unset or gives 0
  (\<^verbatim>\<open>request.max_tokens or 1000\<close>), and the request's value otherwise. When the provider
  answers, the usage of the response has exactly the keys \<open>input_tokens\<close> and
  \<open>output_tokens\<close>, with the provider's counts.
\<close>

theorem chat_secondary_call:
  assumes "\<not> truthy (os_getenv env ''OPENAI_API_KEY'')"
    and "truthy (os_getenv env ''ANTHROPIC_API_KEY'')"
  shows
    "(let call = \<lparr>ac_api_key = os_getenv env ''ANTHROPIC_API_KEY'',
                  ac_model = ''claude-3-sonnet-20240229'',
                  ac_max_tokens =
                    (case req_max_tokens request of
                       None \<Rightarrow> 1000 | Some n \<Rightarrow> if n = 0 then 1000 else n),
                  ac_system = anthropic_system,
                  ac_messages =
                    map message_dict
                      (filter (\<lambda>m. msg_role m \<noteq> ''system'') (req_messages request))\<rparr>
      in fst (chat env openai_create anthropic_create request) = [Anthropic_create call]
         \<and> filter (\<lambda>d. map_of d ''role'' = Some ''system'') (ac_messages call) = []
         \<and> fst (chat env openai_create anthropic_create (request\<lparr>req_model := other_model\<rparr>))
             = [Anthropic_create call]
         \<and> (anthropic_create call = Inr response
            \<longrightarrow> snd (chat env openai_create anthropic_create request)
                = Inr (Some \<lparr>resp_content = ar_text response,
                             resp_model = ar_model response,
                             resp_usage = Some
                               [(''input_tokens'', ar_input_tokens response),
                                (''output_tokens'', ar_output_tokens response)]\<rparr>)))"
  using assms
  by (cases "req_max_tokens request")
     (simp_all add: chat_def Let_def anthropic_model_def filter_map o_def message_dict_def
        filter_empty_conv split: sum.splits)

theorem chat_secondary_call_witness:
  "\<not> truthy (os_getenv [''ANTHROPIC_API_KEY'' \<mapsto> ''sk-ant''] ''OPENAI_API_KEY'')
   \<and> truthy (os_getenv [''ANTHROPIC_API_KEY'' \<mapsto> ''sk-ant''] ''ANTHROPIC_API_KEY'')
   \<and> chat [''ANTHROPIC_API_KEY'' \<mapsto> ''sk-ant''] openai_echo anthropic_echo
        \<lparr>req_messages =
           [\<lparr>msg_role = ''system'', msg_content = ''Be terse''\<rparr>,
            \<lparr>msg_role = ''user'', msg_content = ''Hi''\<rparr>],
         req_model = Some ''gpt-4'', req_temperature = Some 0.7,
         req_max_tokens = None, req_user_id = None\<rparr>
       = ([Anthropic_create
             \<lparr>ac_api_key = Some ''sk-ant'', ac_model = ''claude-3-sonnet-20240229'',
              ac_max_tokens = 1000, ac_system = anthropic_system,
              ac_messages = [[(''role'', ''user''), (''content'', ''Hi'')]]\<rparr>],
          Inr (Some \<lparr>resp_content = ''ok'', resp_model = ''claude-3-sonnet-20240229'',
                     resp_usage = Some [(''input_tokens'', 12), (''output_tokens'', 3)]\<rparr>))"
  using chat_secondary_call
    [of "[''ANTHROPIC_API_KEY'' \<mapsto> ''sk-ant'']"
        "\<lparr>req_messages =
           [\<lparr>msg_role = ''system'', msg_content = ''Be terse''\<rparr>,
            \<lparr>msg_role = ''user'', msg_content = ''Hi''\<rparr>],
         req_model = Some ''gpt-4'', req_temperature = Some 0.7,
         req_max_tokens = None, req_user_id = None\<rparr>"
        openai_echo anthropic_echo "Some ''gpt-4''"
        "\<lparr>ar_text = ''ok'', ar_model = ''claude-3-sonnet-20240229'',
          ar_input_tokens = 12, ar_output_tokens = 3\<rparr>"]
  by (simp add: os_getenv_def anthropic_echo_def message_dict_def prod_eq_iff Let_def)

text \<open>
  C3 as stated has \<open>max_tokens\<close> default to 1000 if unset, the request's value being
  used when it is set. A request that sets \<open>max_tokens\<close> to 0 takes the secondary path
  and is sent with \<open>max_tokens\<close> 1000, which is not the value of the request.
\<close>

theorem chat_secondary_max_tokens_counterexample:
  "\<not> truthy (os_getenv [''ANTHROPIC_API_KEY'' \<mapsto> ''sk-ant''] ''OPENAI_API_KEY'')
   \<and> truthy (os_getenv [''ANTHROPIC_API_KEY'' \<mapsto> ''sk-ant''] ''ANTHROPIC_API_KEY'')
   \<and> fst (chat [''ANTHROPIC_API_KEY'' \<mapsto> ''sk-ant''] openai_echo anthropic_echo
            \<lparr>req_messages = [\<lparr>msg_role = ''user'', msg_content = ''Hi''\<rparr>],
             req_model = Some ''gpt-4'', req_temperature = Some 0.7,
             req_max_tokens = Some 0, req_user_id = None\<rparr>)
       = [Anthropic_create
            \<lparr>ac_api_key = Some ''sk-ant'', ac_model = ''claude-3-sonnet-20240229'',
             ac_max_tokens = 1000, ac_system = anthropic_system,
             ac_messages = [[(''role'', ''user''), (''content'', ''Hi'')]]\<rparr>]
   \<and> req_max_tokens
        \<lparr>req_messages = [\<lparr>msg_role = ''user'', msg_content = ''Hi''\<rparr>],
         req_model = Some ''gpt-4'', req_temperature = Some 0.7,
         req_max_tokens = Some 0, req_user_id = None\<rparr> \<noteq> None
   \<and> Some (1000 :: int)
       \<noteq> req_max_tokens
           \<lparr>req_messages = [\<lparr>msg_role = ''user'', msg_content = ''Hi''\<rparr>],
            req_model = Some ''gpt-4'', req_temperature = Some 0.7,
            req_max_tokens = Some 0, req_user_id = None\<rparr>"
  by (simp add: os_getenv_def chat_def Let_def anthropic_echo_def anthropic_model_def
        message_dict_def)

subsection \<open>Analyze: an unrecognised task\<close>

text \<open>
  C4. With the OpenAI key present and a task other than \<open>''summarize''\<close>, \<open>''extract''\<close>
  and \<open>''classify''\<close>, \<open>analyze\<close> makes the very call it makes for the task
  \<open>''summarize''\<close> on the same text: the user message is the summarize prompt. When the
  provider answers, the response echoes the task of the request, not \<open>''summarize''\<close>.
\<close>

theorem analyze_unknown_task_uses_summarize_prompt:
  assumes "truthy (os_getenv env ''OPENAI_API_KEY'')"
    and "areq_task request \<notin> {''summarize'', ''extract'', ''classify''}"
  shows
    "(let call = \<lparr>oc_api_key = os_getenv env ''OPENAI_API_KEY'',
                  oc_model = ''gpt-4'',
                  oc_messages =
                    [analyze_system,
                     [(''role'', ''user''),
                      (''content'',
                         ''Resuma o seguinte texto de forma concisa:\<newline>\<newline>''
                         @ areq_text request)]],
                  oc_temperature = Some 0.3,
                  oc_max_tokens = NotGiven\<rparr>
      in fst (analyze env openai_create request) = [OpenAI_create call]
         \<and> fst (analyze env openai_create (request\<lparr>areq_task := ''summarize''\<rparr>))
             = [OpenAI_create call]
         \<and> (openai_create call = Inr response
            \<longrightarrow> snd (analyze env openai_create request)
                  = Inr \<lparr>aresp_result = or_content response,
                         aresp_task = areq_task request\<rparr>
              \<and> snd (analyze env openai_create (request\<lparr>areq_task := ''summarize''\<rparr>))
                  = Inr \<lparr>aresp_result = or_content response,
                         aresp_task = ''summarize''\<rparr>))"
  using assms
  by (simp add: analyze_def Let_def dict_getitem_def dict_get_def prompts_def
        split: sum.splits)

theorem analyze_unknown_task_uses_summarize_prompt_witness:
  "truthy (os_getenv [''OPENAI_API_KEY'' \<mapsto> ''sk-test''] ''OPENAI_API_KEY'')
   \<and> ''unknown'' \<notin> {''summarize'', ''extract'', ''classify''}
   \<and> analyze [''OPENAI_API_KEY'' \<mapsto> ''sk-test''] openai_echo
         \<lparr>areq_text = ''long text'', areq_task = ''unknown''\<rparr>
       = ([OpenAI_create
            \<lparr>oc_api_key = Some ''sk-test'', oc_model = ''gpt-4'',
             oc_messages =
               [analyze_system,
                [(''role'', ''user''),
                 (''content'',
                    ''Resuma o seguinte texto de forma concisa:\<newline>\<newline>long text'')]],
             oc_temperature = Some 0.3, oc_max_tokens = NotGiven\<rparr>],
          Inr \<lparr>aresp_result = ''ok'', aresp_task = ''unknown''\<rparr>)"
  using analyze_unknown_task_uses_summarize_prompt
    [of "[''OPENAI_API_KEY'' \<mapsto> ''sk-test'']"
        "\<lparr>areq_text = ''long text'', areq_task = ''unknown''\<rparr>"
        openai_echo
        "\<lparr>or_content = ''ok'', or_model = ''gpt-4'', or_prompt_tokens = 12,
          or_completion_tokens = 3, or_total_tokens = 15\<rparr>"]
  by (simp add: os_getenv_def openai_echo_def prod_eq_iff Let_def)

subsection \<open>Analyze: no primary credential\<close>

text \<open>
  C5. When the OpenAI key is absent, \<open>analyze\<close> makes no outbound call, to Anthropic in
  particular, and returns the configuration-needed text with the task of the request,
  whatever the Anthropic key is. That text is not the fallback text of \<open>chat\<close>; and with
  the Anthropic key present \<open>chat\<close>, unlike \<open>analyze\<close>, does call Anthropic.
\<close>

theorem analyze_without_primary_credential:
  assumes "\<not> truthy (os_getenv env ''OPENAI_API_KEY'')"
  shows "analyze env openai_create request
           = ([], Inr \<lparr>aresp_result = config_needed_result,
                       aresp_task = areq_task request\<rparr>)
         \<and> Anthropic \<notin> set (map provider_of (fst (analyze env openai_create request)))
         \<and> config_needed_result \<noteq> fallback_content
         \<and> (truthy (os_getenv env ''ANTHROPIC_API_KEY'')
            \<longrightarrow> map provider_of (fst (chat env openai_create anthropic_create chat_request))
                = [Anthropic])"
  using assms
  by (simp add: analyze_def chat_def Let_def config_needed_result_def fallback_content_def
        wrench_def split: sum.splits)

theorem analyze_without_primary_credential_witness:
  "\<not> truthy (os_getenv [''ANTHROPIC_API_KEY'' \<mapsto> ''sk-ant''] ''OPENAI_API_KEY'')
   \<and> truthy (os_getenv [''ANTHROPIC_API_KEY'' \<mapsto> ''sk-ant''] ''ANTHROPIC_API_KEY'')
   \<and> analyze [''ANTHROPIC_API_KEY'' \<mapsto> ''sk-ant''] openai_echo
         \<lparr>areq_text = ''long text'', areq_task = ''classify''\<rparr>
       = ([], Inr \<lparr>aresp_result = config_needed_result, aresp_task = ''classify''\<rparr>)
   \<and> map provider_of
        (fst (chat [''ANTHROPIC_API_KEY'' \<mapsto> ''sk-ant''] openai_echo anthropic_echo
                (ChatRequest_defaults [\<lparr>msg_role = ''user'', msg_content = ''Hi''\<rparr>])))
       = [Anthropic]"
  using analyze_without_primary_credential
    [of "[''ANTHROPIC_API_KEY'' \<mapsto> ''sk-ant'']" openai_echo
        "\<lparr>areq_text = ''long text'', areq_task = ''classify''\<rparr>" anthropic_echo
        "ChatRequest_defaults [\<lparr>msg_role = ''user'', msg_content = ''Hi''\<rparr>]"]
  by (simp add: os_getenv_def)

subsection \<open>Chat: the call to the primary provider\<close>

text \<open>
  C6, as the code has it. On the primary path (OpenAI key present) \<open>chat\<close> makes one
  call, to OpenAI. Its messages are the persona system message followed by the caller's
  messages, each one forwarded with its role and content, in order; its temperature and
  max_tokens are those of the request; its model is the request's model when that is a
  non-empty string, and \<open>''gpt-4''\<close> when it is \<open>None\<close> or empty
  (\<^verbatim>\<open>request.model or "gpt-4"\<close>).
\<close>

theorem chat_primary_call:
  assumes "truthy (os_getenv env ''OPENAI_API_KEY'')"
  shows
    "fst (chat env openai_create anthropic_create request) =
       [OpenAI_create
          \<lparr>oc_api_key = os_getenv env ''OPENAI_API_KEY'',
           oc_model =
             (case req_model request of
                None \<Rightarrow> ''gpt-4'' | Some m \<Rightarrow> if m = [] then ''gpt-4'' else m),
           oc_messages = system_prompt # map message_dict (req_messages request),
           oc_temperature = req_temperature request,
           oc_max_tokens = Given (req_max_tokens request)\<rparr>]"
  using assms
  by (cases "req_model request") (simp_all add: chat_def Let_def split: sum.splits)

theorem chat_primary_call_witness:
  "truthy (os_getenv [''OPENAI_API_KEY'' \<mapsto> ''sk-test''] ''OPENAI_API_KEY'')
   \<and> fst (chat [''OPENAI_API_KEY'' \<mapsto> ''sk-test''] openai_echo anthropic_echo
            \<lparr>req_messages =
               [\<lparr>msg_role = ''system'', msg_content = ''Be terse''\<rparr>,
                \<lparr>msg_role = ''user'', msg_content = ''Hi''\<rparr>],
             req_model = Some ''gpt-4o'', req_temperature = Some 0.2,
             req_max_tokens = None, req_user_id = None\<rparr>)
       = [OpenAI_create
            \<lparr>oc_api_key = Some ''sk-test'', oc_model = ''gpt-4o'',
             oc_messages =
               [system_prompt,
                [(''role'', ''system''), (''content'', ''Be terse'')],
                [(''role'', ''user''), (''content'', ''Hi'')]],
             oc_temperature = Some 0.2, oc_max_tokens = Given None\<rparr>]"
  using chat_primary_call
    [of "[''OPENAI_API_KEY'' \<mapsto> ''sk-test'']" openai_echo anthropic_echo
        "\<lparr>req_messages =
               [\<lparr>msg_role = ''system'', msg_content = ''Be terse''\<rparr>,
                \<lparr>msg_role = ''user'', msg_content = ''Hi''\<rparr>],
             req_model = Some ''gpt-4o'', req_temperature = Some 0.2,
             req_max_tokens = None, req_user_id = None\<rparr>"]
  by (simp add: os_getenv_def message_dict_def)

text \<open>
  C6 as stated says that the outbound call uses the request's model. A request whose model
  is the empty string takes the primary path and is sent with the model \<open>''gpt-4''\<close>,
  which is not the model of the request.
\<close>

theorem chat_primary_model_counterexample:
  "truthy (os_getenv [''OPENAI_API_KEY'' \<mapsto> ''sk-test''] ''OPENAI_API_KEY'')
   \<and> fst (chat [''OPENAI_API_KEY'' \<mapsto> ''sk-test''] openai_echo anthropic_echo
            \<lparr>req_messages = [\<lparr>msg_role = ''user'', msg_content = ''Hi''\<rparr>],
             req_model = Some [], req_temperature = Some 0.7,
             req_max_tokens = Some 1000, req_user_id = None\<rparr>)
       = [OpenAI_create
            \<lparr>oc_api_key = Some ''sk-test'', oc_model = ''gpt-4'',
             oc_messages = [system_prompt, [(''role'', ''user''), (''content'', ''Hi'')]],
             oc_temperature = Some 0.7, oc_max_tokens = Given (Some 1000)\<rparr>]
   \<and> Some ''gpt-4''
       \<noteq> req_model
           \<lparr>req_messages = [\<lparr>msg_role = ''user'', msg_content = ''Hi''\<rparr>],
            req_model = Some [], req_temperature = Some 0.7,
            req_max_tokens = Some 1000, req_user_id = None\<rparr>"
  by (simp add: os_getenv_def chat_def Let_def openai_echo_def message_dict_def)

subsection \<open>Provider failures\<close>

text \<open>
  C7. Whenever the provider raises an exception with message \<open>msg\<close> on the call that the
  handler builds from the request, the handler's result is the \<open>HTTPException\<close> with
  status 500 whose detail is \<open>msg\<close> itself, no response is returned, and that call is
  the only one the handler made (it calls \<^verbatim>\<open>create\<close> once). This holds for \<open>chat\<close> on
  the primary path (OpenAI key present), for \<open>chat\<close> on the secondary path (OpenAI key
  absent, Anthropic key present) and for \<open>analyze\<close> with the OpenAI key present.
\<close>

theorem provider_exception_becomes_http_500:
  "(let call = \<lparr>oc_api_key = os_getenv env ''OPENAI_API_KEY'',
                 oc_model = or_str (req_model request) ''gpt-4'',
                 oc_messages = system_prompt # map message_dict (req_messages request),
                 oc_temperature = req_temperature request,
                 oc_max_tokens = Given (req_max_tokens request)\<rparr>
     in truthy (os_getenv env ''OPENAI_API_KEY'') \<and> openai_create call = Inl msg
        \<longrightarrow> chat env openai_create anthropic_create request
            = ([OpenAI_create call], Inl (HTTPException 500 msg)))
   \<and> (let call = \<lparr>ac_api_key = os_getenv env ''ANTHROPIC_API_KEY'',
                   ac_model = ''claude-3-sonnet-20240229'',
                   ac_max_tokens = or_int (req_max_tokens request) 1000,
                   ac_system = anthropic_system,
                   ac_messages =
                     map message_dict
                       (filter (\<lambda>m. msg_role m \<noteq> ''system'') (req_messages request))\<rparr>
       in \<not> truthy (os_getenv env ''OPENAI_API_KEY'')
          \<and> truthy (os_getenv env ''ANTHROPIC_API_KEY'')
          \<and> anthropic_create call = Inl msg
          \<longrightarrow> chat env openai_create anthropic_create request
              = ([Anthropic_create call], Inl (HTTPException 500 msg)))
   \<and> (let call = \<lparr>oc_api_key = os_getenv env ''OPENAI_API_KEY'',
                   oc_model = ''gpt-4'',
                   oc_messages =
                     [analyze_system,
                      [(''role'', ''user''),
                       (''content'',
                          dict_get (prompts (areq_text arequest)) (areq_task arequest)
                            (''Resuma o seguinte texto de forma concisa:\<newline>\<newline>''
                             @ areq_text arequest))]],
                   oc_temperature = Some 0.3,
                   oc_max_tokens = NotGiven\<rparr>
       in truthy (os_getenv env ''OPENAI_API_KEY'') \<and> openai_create call = Inl msg
          \<longrightarrow> analyze env openai_create arequest
              = ([OpenAI_create call], Inl (HTTPException 500 msg)))"
proof (intro conjI)
  show "let call = \<lparr>oc_api_key = os_getenv env ''OPENAI_API_KEY'',
                 oc_model = or_str (req_model request) ''gpt-4'',
                 oc_messages = system_prompt # map message_dict (req_messages request),
                 oc_temperature = req_temperature request,
                 oc_max_tokens = Given (req_max_tokens request)\<rparr>
     in truthy (os_getenv env ''OPENAI_API_KEY'') \<and> openai_create call = Inl msg
        \<longrightarrow> chat env openai_create anthropic_create request
            = ([OpenAI_create call], Inl (HTTPException 500 msg))"
    by (simp add: chat_def Let_def)
next
  show "let call = \<lparr>ac_api_key = os_getenv env ''ANTHROPIC_API_KEY'',
                   ac_model = ''claude-3-sonnet-20240229'',
                   ac_max_tokens = or_int (req_max_tokens request) 1000,
                   ac_system = anthropic_system,
                   ac_messages =
                     map message_dict
                       (filter (\<lambda>m. msg_role m \<noteq> ''system'') (req_messages request))\<rparr>
       in \<not> truthy (os_getenv env ''OPENAI_API_KEY'')
          \<and> truthy (os_getenv env ''ANTHROPIC_API_KEY'')
          \<and> anthropic_create call = Inl msg
          \<longrightarrow> chat env openai_create anthropic_create request
              = ([Anthropic_create call], Inl (HTTPException 500 msg))"
    by (simp add: chat_def Let_def anthropic_model_def)
next
  have dflt: "dict_getitem (prompts (areq_text arequest)) ''summarize''
        = Inr (''Resuma o seguinte texto de forma concisa:\<newline>\<newline>'' @ areq_text arequest)"
    by (simp add: dict_getitem_def prompts_def)
  show "let call = \<lparr>oc_api_key = os_getenv env ''OPENAI_API_KEY'',
                   oc_model = ''gpt-4'',
                   oc_messages =
                     [analyze_system,
                      [(''role'', ''user''),
                       (''content'',
                          dict_get (prompts (areq_text arequest)) (areq_task arequest)
                            (''Resuma o seguinte texto de forma concisa:\<newline>\<newline>''
                             @ areq_text arequest))]],
                   oc_temperature = Some 0.3,
                   oc_max_tokens = NotGiven\<rparr>
       in truthy (os_getenv env ''OPENAI_API_KEY'') \<and> openai_create call = Inl msg
          \<longrightarrow> analyze env openai_create arequest
              = ([OpenAI_create call], Inl (HTTPException 500 msg))"
    by (simp add: analyze_def Let_def dflt)
qed

theorem provider_exception_becomes_http_500_witness:
  "truthy (os_getenv [''OPENAI_API_KEY'' \<mapsto> ''sk-test''] ''OPENAI_API_KEY'')
   \<and> openai_down
        \<lparr>oc_api_key = Some ''sk-test'', oc_model = ''gpt-4'',
         oc_messages = [system_prompt, [(''role'', ''user''), (''content'', ''Hi'')]],
         oc_temperature = Some 0.7, oc_max_tokens = Given (Some 1000)\<rparr>
       = Inl ''Connection error.''
   \<and> chat [''OPENAI_API_KEY'' \<mapsto> ''sk-test''] openai_down anthropic_echo
        (ChatRequest_defaults [\<lparr>msg_role = ''user'', msg_content = ''Hi''\<rparr>])
       = ([OpenAI_create
             \<lparr>oc_api_key = Some ''sk-test'', oc_model = ''gpt-4'',
              oc_messages = [system_prompt, [(''role'', ''user''), (''content'', ''Hi'')]],
              oc_temperature = Some 0.7, oc_max_tokens = Given (Some 1000)\<rparr>],
          Inl (HTTPException 500 ''Connection error.''))
   \<and> \<not> truthy (os_getenv [''ANTHROPIC_API_KEY'' \<mapsto> ''sk-ant''] ''OPENAI_API_KEY'')
   \<and> truthy (os_getenv [''ANTHROPIC_API_KEY'' \<mapsto> ''sk-ant''] ''ANTHROPIC_API_KEY'')
   \<and> anthropic_down
        \<lparr>ac_api_key = Some ''sk-ant'', ac_model = ''claude-3-sonnet-20240229'',
         ac_max_tokens = 1000, ac_system = anthropic_system,
         ac_messages = [[(''role'', ''user''), (''content'', ''Hi'')]]\<rparr>
       = Inl ''Connection error.''
   \<and> chat [''ANTHROPIC_API_KEY'' \<mapsto> ''sk-ant''] openai_echo anthropic_down
        (ChatRequest_defaults [\<lparr>msg_role = ''user'', msg_content = ''Hi''\<rparr>])
       = ([Anthropic_create
             \<lparr>ac_api_key = Some ''sk-ant'', ac_model = ''claude-3-sonnet-20240229'',
              ac_max_tokens = 1000, ac_system = anthropic_system,
              ac_messages = [[(''role'', ''user''), (''content'', ''Hi'')]]\<rparr>],
          Inl (HTTPException 500 ''Connection error.''))
   \<and> openai_down
        \<lparr>oc_api_key = Some ''sk-test'', oc_model = ''gpt-4'',
         oc_messages =
           [analyze_system,
            [(''role'', ''user''),
             (''content'',
                ''Classifique o seguinte texto por categoria e sentimento:\<newline>\<newline>abc'')]],
         oc_temperature = Some 0.3, oc_max_tokens = NotGiven\<rparr>
       = Inl ''Connection error.''
   \<and> analyze [''OPENAI_API_KEY'' \<mapsto> ''sk-test''] openai_down
        \<lparr>areq_text = ''abc'', areq_task = ''classify''\<rparr>
       = ([OpenAI_create
             \<lparr>oc_api_key = Some ''sk-test'', oc_model = ''gpt-4'',
              oc_messages =
                [analyze_system,
                 [(''role'', ''user''),
                  (''content'',
                     ''Classifique o seguinte texto por categoria e sentimento:\<newline>\<newline>abc'')]],
              oc_temperature = Some 0.3, oc_max_tokens = NotGiven\<rparr>],
          Inl (HTTPException 500 ''Connection error.''))"
  using
    provider_exception_becomes_http_500
      [where env = "[''OPENAI_API_KEY'' \<mapsto> ''sk-test'']"
         and openai_create = openai_down and anthropic_create = anthropic_echo
         and request = "ChatRequest_defaults [\<lparr>msg_role = ''user'', msg_content = ''Hi''\<rparr>]"
         and arequest = "\<lparr>areq_text = ''abc'', areq_task = ''classify''\<rparr>"
         and msg = "''Connection error.''"]
    provider_exception_becomes_http_500
      [where env = "[''ANTHROPIC_API_KEY'' \<mapsto> ''sk-ant'']"
         and openai_create = openai_echo and anthropic_create = anthropic_down
         and request = "ChatRequest_defaults [\<lparr>msg_role = ''user'', msg_content = ''Hi''\<rparr>]"
         and msg = "''Connection error.''"]
  by (simp add: Let_def os_getenv_def openai_down_def anthropic_down_def
        ChatRequest_defaults_def message_dict_def dict_get_def prompts_def)

subsection \<open>Suggest\<close>

text \<open>
  C8. \<open>suggest\<close> returns the same value for any two payloads: the one key
  \<open>suggestions\<close> with three fixed strings in a fixed order. It has no error result.
\<close>

theorem suggest_constant:
  "suggest context1 = suggest context2
   \<and> suggest context1 =
       [(''suggestions'',
          [''Voc'' @ e_circ @ '' tem 3 tarefas pendentes para hoje'',
           ''Considere agendar uma pausa '' @ a_grave @ ''s 15h'',
           ''Seu relat'' @ o_acute @ ''rio mensal est'' @ a_acute @ '' pendente''])]
   \<and> map (\<lambda>kv. length (snd kv)) (suggest context1) = [3]"
  by (simp add: suggest_def)

subsection \<open>Empty credentials\<close>

text \<open>
  C9. A credential set to the empty string counts as absent. With both variables set to
  the empty string, \<open>chat\<close> returns what it returns in the empty environment, the
  fallback response; with \<^verbatim>\<open>OPENAI_API_KEY\<close> set to the empty string, \<open>analyze\<close>
  returns what it returns in the empty environment, the configuration-needed response.
\<close>

theorem empty_credentials_count_as_absent:
  "(os_getenv env ''OPENAI_API_KEY'' = Some [] \<and> os_getenv env ''ANTHROPIC_API_KEY'' = Some []
      \<longrightarrow> chat env openai_create anthropic_create request
            = chat Map.empty openai_create anthropic_create request
        \<and> chat env openai_create anthropic_create request
            = ([], Inr (Some \<lparr>resp_content = fallback_content, resp_model = ''fallback'',
                             resp_usage = None\<rparr>)))
   \<and> (os_getenv env ''OPENAI_API_KEY'' = Some []
      \<longrightarrow> analyze env openai_create arequest = analyze Map.empty openai_create arequest
        \<and> analyze env openai_create arequest
            = ([], Inr \<lparr>aresp_result = config_needed_result,
                        aresp_task = areq_task arequest\<rparr>))"
  by (simp add: chat_def analyze_def Let_def os_getenv_def)

theorem empty_credentials_count_as_absent_witness:
  "os_getenv [''OPENAI_API_KEY'' \<mapsto> [], ''ANTHROPIC_API_KEY'' \<mapsto> []] ''OPENAI_API_KEY''
      = Some []
   \<and> os_getenv [''OPENAI_API_KEY'' \<mapsto> [], ''ANTHROPIC_API_KEY'' \<mapsto> []] ''ANTHROPIC_API_KEY''
      = Some []
   \<and> chat [''OPENAI_API_KEY'' \<mapsto> [], ''ANTHROPIC_API_KEY'' \<mapsto> []] openai_echo anthropic_echo
        (ChatRequest_defaults [\<lparr>msg_role = ''user'', msg_content = ''Hi''\<rparr>])
      = chat Map.empty openai_echo anthropic_echo
          (ChatRequest_defaults [\<lparr>msg_role = ''user'', msg_content = ''Hi''\<rparr>])
   \<and> chat [''OPENAI_API_KEY'' \<mapsto> [], ''ANTHROPIC_API_KEY'' \<mapsto> []] openai_echo anthropic_echo
        (ChatRequest_defaults [\<lparr>msg_role = ''user'', msg_content = ''Hi''\<rparr>])
      = ([], Inr (Some \<lparr>resp_content = fallback_content, resp_model = ''fallback'',
                       resp_usage = None\<rparr>))
   \<and> analyze [''OPENAI_API_KEY'' \<mapsto> [], ''ANTHROPIC_API_KEY'' \<mapsto> []] openai_echo
        \<lparr>areq_text = ''long text'', areq_task = ''extract''\<rparr>
      = analyze Map.empty openai_echo \<lparr>areq_text = ''long text'', areq_task = ''extract''\<rparr>
   \<and> analyze [''OPENAI_API_KEY'' \<mapsto> [], ''ANTHROPIC_API_KEY'' \<mapsto> []] openai_echo
        \<lparr>areq_text = ''long text'', areq_task = ''extract''\<rparr>
      = ([], Inr \<lparr>aresp_result = config_needed_result, aresp_task = ''extract''\<rparr>)"
  using empty_credentials_count_as_absent
    [of "[''OPENAI_API_KEY'' \<mapsto> [], ''ANTHROPIC_API_KEY'' \<mapsto> []]"
        openai_echo anthropic_echo
        "ChatRequest_defaults [\<lparr>msg_role = ''user'', msg_content = ''Hi''\<rparr>]"
        "\<lparr>areq_text = ''long text'', areq_task = ''extract''\<rparr>"]
  by (auto simp add: os_getenv_def)

subsection \<open>Roles are not validated\<close>

text \<open>
  C10. \<open>msg_role\<close> is any string, and \<open>chat\<close> refuses none. On the primary path every
  message is forwarded, whatever its role. On the secondary path the forwarded messages
  are those whose role is not exactly \<open>''system''\<close>: every message with another role,
  \<open>''System''\<close> for one, is among them. And \<open>chat\<close> returns an error only when the
  provider call it made raised, with that exception's message.
\<close>

theorem chat_roles_not_validated:
  "(truthy (os_getenv env ''OPENAI_API_KEY'')
      \<longrightarrow> map call_messages (fst (chat env openai_create anthropic_create request))
          = [system_prompt # map message_dict (req_messages request)])
   \<and> (\<not> truthy (os_getenv env ''OPENAI_API_KEY'') \<and> truthy (os_getenv env ''ANTHROPIC_API_KEY'')
      \<longrightarrow> map call_messages (fst (chat env openai_create anthropic_create request))
            = [map message_dict
                 (filter (\<lambda>m. msg_role m \<noteq> ''system'') (req_messages request))]
        \<and> (\<forall>m \<in> set (req_messages request).
              msg_role m \<noteq> ''system''
              \<longrightarrow> message_dict m
                  \<in> set (concat (map call_messages
                              (fst (chat env openai_create anthropic_create request))))))
   \<and> (snd (chat env openai_create anthropic_create request) = Inl e
      \<longrightarrow> (\<exists>c. fst (chat env openai_create anthropic_create request) = [OpenAI_create c]
               \<and> openai_create c = Inl (detail e))
        \<or> (\<exists>c. fst (chat env openai_create anthropic_create request) = [Anthropic_create c]
               \<and> anthropic_create c = Inl (detail e)))"
  by (auto simp add: chat_def Let_def split: sum.splits if_splits)

theorem chat_roles_not_validated_witness:
  "\<not> truthy (os_getenv [''ANTHROPIC_API_KEY'' \<mapsto> ''sk-ant''] ''OPENAI_API_KEY'')
   \<and> truthy (os_getenv [''ANTHROPIC_API_KEY'' \<mapsto> ''sk-ant''] ''ANTHROPIC_API_KEY'')
   \<and> map call_messages
        (fst (chat [''ANTHROPIC_API_KEY'' \<mapsto> ''sk-ant''] openai_echo anthropic_down
                (ChatRequest_defaults
                   [\<lparr>msg_role = ''System'', msg_content = ''a''\<rparr>,
                    \<lparr>msg_role = ''system'', msg_content = ''b''\<rparr>,
                    \<lparr>msg_role = ''tool'', msg_content = ''c''\<rparr>])))
       = [[[(''role'', ''System''), (''content'', ''a'')],
           [(''role'', ''tool''), (''content'', ''c'')]]]
   \<and> snd (chat [''ANTHROPIC_API_KEY'' \<mapsto> ''sk-ant''] openai_echo anthropic_down
              (ChatRequest_defaults
                 [\<lparr>msg_role = ''System'', msg_content = ''a''\<rparr>,
                  \<lparr>msg_role = ''system'', msg_content = ''b''\<rparr>,
                  \<lparr>msg_role = ''tool'', msg_content = ''c''\<rparr>]))
       = Inl (HTTPException 500 ''Connection error.'')
   \<and> map provider_of
        (fst (chat [''ANTHROPIC_API_KEY'' \<mapsto> ''sk-ant''] openai_echo anthropic_down
                (ChatRequest_defaults
                   [\<lparr>msg_role = ''System'', msg_content = ''a''\<rparr>,
                    \<lparr>msg_role = ''system'', msg_content = ''b''\<rparr>,
                    \<lparr>msg_role = ''tool'', msg_content = ''c''\<rparr>])))
       = [Anthropic]
   \<and> truthy (os_getenv [''OPENAI_API_KEY'' \<mapsto> ''sk-test''] ''OPENAI_API_KEY'')
   \<and> map call_messages
        (fst (chat [''OPENAI_API_KEY'' \<mapsto> ''sk-test''] openai_echo anthropic_echo
                (ChatRequest_defaults [\<lparr>msg_role = ''wizard'', msg_content = ''a''\<rparr>])))
       = [[system_prompt, [(''role'', ''wizard''), (''content'', ''a'')]]]"
proof -
  have raised:
    "snd (chat [''ANTHROPIC_API_KEY'' \<mapsto> ''sk-ant''] openai_echo anthropic_down
            (ChatRequest_defaults
               [\<lparr>msg_role = ''System'', msg_content = ''a''\<rparr>,
                \<lparr>msg_role = ''system'', msg_content = ''b''\<rparr>,
                \<lparr>msg_role = ''tool'', msg_content = ''c''\<rparr>]))
       = Inl (HTTPException 500 ''Connection error.'')"
    by (simp add: chat_def Let_def os_getenv_def anthropic_down_def)
  have echo: "\<And>c. openai_echo c \<noteq> Inl ''Connection error.''"
    by (simp add: openai_echo_def)
  from raised echo
    chat_roles_not_validated
      [where env = "[''ANTHROPIC_API_KEY'' \<mapsto> ''sk-ant'']"
         and openai_create = openai_echo and anthropic_create = anthropic_down
         and request = "ChatRequest_defaults
                   [\<lparr>msg_role = ''System'', msg_content = ''a''\<rparr>,
                    \<lparr>msg_role = ''system'', msg_content = ''b''\<rparr>,
                    \<lparr>msg_role = ''tool'', msg_content = ''c''\<rparr>]"
         and e = "HTTPException 500 ''Connection error.''"]
    chat_roles_not_validated
      [where env = "[''OPENAI_API_KEY'' \<mapsto> ''sk-test'']"
         and openai_create = openai_echo and anthropic_create = anthropic_echo
         and request = "ChatRequest_defaults [\<lparr>msg_role = ''wizard'', msg_content = ''a''\<rparr>]"]
  show ?thesis
    by (auto simp add: os_getenv_def ChatRequest_defaults_def message_dict_def)
qed

end
